theory Spec2Isabelle
  imports Main
begin

section \<open>Values of the report record\<close>

text \<open>
  A report is a \<^verbatim>\<open>Record<string, any>\<close>: a finite mapping from property names to
  JavaScript values. The values a form field can hold are modelled by \<open>jsval\<close>.
  Numbers are the integers together with \<open>NaN\<close> (the one number that is not strictly equal
  to itself); objects, arrays and functions are compared by reference, so they are
  represented by their address. Strings are sequences of code units below 256.
\<close>

datatype jsval =
    JUndefined
  | JNull
  | JBoolean bool
  | JNumber int
  | JNaN
  | JString string
  | JObject nat

type_synonym report = "string \<rightharpoonup> jsval"

text \<open>
  The first argument of \<^verbatim>\<open>validateForm\<close> has type \<^verbatim>\<open>T | null | undefined\<close>.
\<close>

datatype report_arg = RUndefined | RNull | RObject report

text \<open>\<^verbatim>\<open>a === b\<close>: same type and same value, except that \<open>NaN\<close> equals nothing.\<close>

definition strictEquals :: "jsval \<Rightarrow> jsval \<Rightarrow> bool" where
  "strictEquals a b = (a \<noteq> JNaN \<and> b \<noteq> JNaN \<and> a = b)"

text \<open>
  A report is a plain object: the map gives its own properties, and its prototype is
  \<^verbatim>\<open>Object.prototype\<close>, whose properties every report inherits. These are built-in
  functions and the accessor \<^verbatim>\<open>__proto__\<close>, which yields the prototype object; the
  built-in objects have the addresses 0 to 11.
\<close>

definition objectPrototype :: "string \<rightharpoonup> jsval" where
  "objectPrototype =
     map_of [(''constructor'', JObject 0), (''hasOwnProperty'', JObject 1),
             (''isPrototypeOf'', JObject 2), (''propertyIsEnumerable'', JObject 3),
             (''toLocaleString'', JObject 4), (''toString'', JObject 5),
             (''valueOf'', JObject 6), (''__defineGetter__'', JObject 7),
             (''__defineSetter__'', JObject 8), (''__lookupGetter__'', JObject 9),
             (''__lookupSetter__'', JObject 10), (''__proto__'', JObject 11)]"

text \<open>
  \<^verbatim>\<open>report[field]\<close>: the own property when the record has one, else the property
  inherited from \<^verbatim>\<open>Object.prototype\<close>, else \<open>undefined\<close>.
\<close>

definition getProp :: "report \<Rightarrow> string \<Rightarrow> jsval" where
  "getProp r field =
     (case r field of
        Some v \<Rightarrow> v
      | None \<Rightarrow> (case objectPrototype field of Some v \<Rightarrow> v | None \<Rightarrow> JUndefined))"

text \<open>
  \<^verbatim>\<open>String.prototype.trim\<close> removes white space and line terminators from both ends.
  Below 256 these are TAB, LF, VT, FF, CR, SPACE and NBSP.
\<close>

definition isWhiteSpace :: "char \<Rightarrow> bool" where
  "isWhiteSpace c = (c \<in> set [CHR 0x09, CHR 0x0A, CHR 0x0B, CHR 0x0C, CHR 0x0D, CHR 0x20, CHR 0xA0])"

definition trim :: "string \<Rightarrow> string" where
  "trim s = rev (dropWhile isWhiteSpace (rev (dropWhile isWhiteSpace s)))"

section \<open>Validation configuration\<close>

text \<open>
  \<^verbatim>\<open>ConditionalFieldConfig\<close> and \<^verbatim>\<open>StringFieldConfig\<close> both start with the properties
  \<^verbatim>\<open>conditionField\<close> and \<^verbatim>\<open>conditionValue\<close>; these are declared once and extended.
\<close>

record Condition =
  conditionField :: string
  conditionValue :: jsval

record ConditionalFieldConfig = Condition +
  requiredFields :: "string list"

text \<open>\<^verbatim>\<open>negateCondition?: boolean\<close> is optional: \<open>None\<close> is the missing property.\<close>

record StringFieldConfig = Condition +
  stringField :: string
  negateCondition :: "bool option"

text \<open>
  \<^verbatim>\<open>conditionalFields\<close>, \<^verbatim>\<open>stringFields\<close> and \<^verbatim>\<open>customValidation\<close> are optional
  properties. The custom predicate has type \<^verbatim>\<open>(report: T) => boolean\<close> and is taken to be
  a pure function of the record. \<^verbatim>\<open>minImages\<close> is a number that counts images: an integer,
  which the code does not require to be non-negative. The model of a number by an integer is
  exact for the safe integers, see \<open>isSafeInteger\<close> below.
\<close>

record ('c, 's) ValidationConfig =
  minImages :: int
  baseFields :: "string list"
  conditionalFields :: "'c option"
  stringFields :: "'s option"
  customValidation :: "(report \<Rightarrow> bool) option"

text \<open>
  A configuration as \<^verbatim>\<open>validateForm\<close> reads it holds the two rule arrays themselves; a
  configuration object in the store (see the builder below) holds their addresses.
\<close>

type_synonym addr = nat
type_synonym Config = "(ConditionalFieldConfig list, StringFieldConfig list) ValidationConfig"
type_synonym ConfigObject = "(addr, addr) ValidationConfig"

section \<open>validateForm\<close>

text \<open>
  \<^verbatim>\<open>
  const checkFields = (fields) => fields.every(field => {
    const value = report[field];
    return value !== null && value !== undefined && value !== '';
  });
  \<close>
\<close>

definition checkFields :: "report \<Rightarrow> string list \<Rightarrow> bool" where
  "checkFields r fs =
     list_all (\<lambda>field.
        let v = getProp r field
        in \<not> strictEquals v JNull \<and> \<not> strictEquals v JUndefined \<and> \<not> strictEquals v (JString [])) fs"

text \<open>
  \<^verbatim>\<open>
  const checkStringField = (field) => {
    const value = report[field];
    return typeof value === 'string' && value.trim() !== '';
  };
  \<close>
\<close>

definition checkStringField :: "report \<Rightarrow> string \<Rightarrow> bool" where
  "checkStringField r field =
     (case getProp r field of JString s \<Rightarrow> trim s \<noteq> [] | _ \<Rightarrow> False)"

text \<open>
  The loop over \<^verbatim>\<open>config.conditionalFields\<close>; \<open>False\<close> is the early
  \<^verbatim>\<open>return false\<close>, \<open>True\<close> is falling out of the loop.
\<close>

fun conditionalFieldsLoop :: "report \<Rightarrow> ConditionalFieldConfig list \<Rightarrow> bool" where
  "conditionalFieldsLoop r [] = True"
| "conditionalFieldsLoop r (conditional # rest) =
     (if strictEquals (getProp r (conditionField conditional)) (conditionValue conditional)
      then (if \<not> checkFields r (requiredFields conditional) then False
            else conditionalFieldsLoop r rest)
      else conditionalFieldsLoop r rest)"

text \<open>
  \<^verbatim>\<open>
  const conditionMet = stringConfig.negateCondition
    ? report[stringConfig.conditionField] !== stringConfig.conditionValue
    : report[stringConfig.conditionField] === stringConfig.conditionValue;
  \<close>
  A missing \<^verbatim>\<open>negateCondition\<close> is falsy.
\<close>

definition conditionMet :: "report \<Rightarrow> StringFieldConfig \<Rightarrow> bool" where
  "conditionMet r stringConfig =
     (if negateCondition stringConfig = Some True
      then \<not> strictEquals (getProp r (conditionField stringConfig)) (conditionValue stringConfig)
      else strictEquals (getProp r (conditionField stringConfig)) (conditionValue stringConfig))"

fun stringFieldsLoop :: "report \<Rightarrow> StringFieldConfig list \<Rightarrow> bool" where
  "stringFieldsLoop r [] = True"
| "stringFieldsLoop r (stringConfig # rest) =
     (if conditionMet r stringConfig
      then (if \<not> checkStringField r (stringField stringConfig) then False
            else stringFieldsLoop r rest)
      else stringFieldsLoop r rest)"

text \<open>
  \<^verbatim>\<open>validateForm(report, images, config)\<close>. Only \<^verbatim>\<open>images.length\<close> is read, so the
  element type of the image array is left open.
\<close>

fun validateForm :: "report_arg \<Rightarrow> 'img list \<Rightarrow> Config \<Rightarrow> bool" where
  "validateForm RUndefined images config = False"
| "validateForm RNull images config = False"
| "validateForm (RObject r) images config =
     (if int (length images) < minImages config then False
      else if \<not> checkFields r (baseFields config) then False
      else if \<not> (case conditionalFields config of
                    None \<Rightarrow> True
                  | Some cs \<Rightarrow> conditionalFieldsLoop r cs) then False
      else if \<not> (case stringFields config of
                    None \<Rightarrow> True
                  | Some ss \<Rightarrow> stringFieldsLoop r ss) then False
      else if (case customValidation config of
                 None \<Rightarrow> False
               | Some p \<Rightarrow> \<not> p r) then False
      else True)"

section \<open>useFormValidation\<close>

text \<open>
  \<^verbatim>\<open>Number.isSafeInteger\<close>: the integers of magnitude below \<open>2\<^sup>5\<^sup>3\<close>. A JavaScript number
  holds each of them exactly and prints it as its plain decimal numeral. Larger numbers are
  rounded and, from \<open>10\<^sup>2\<^sup>1\<close> on, printed with an exponent; they are outside this model.
\<close>

definition isSafeInteger :: "int \<Rightarrow> bool" where
  "isSafeInteger n = (\<bar>n\<bar> \<le> 9007199254740991)"

text \<open>
  The template literal converts \<^verbatim>\<open>config.minImages\<close> to a string: for a safe integer, its
  decimal numeral with a leading minus sign when it is negative.
\<close>

fun digitsOf :: "nat \<Rightarrow> string" where
  "digitsOf n =
     (if n < 10 then [''0123456789'' ! n]
      else digitsOf (n div 10) @ [''0123456789'' ! (n mod 10)])"

declare digitsOf.simps [simp del]

definition numberToString :: "int \<Rightarrow> string" where
  "numberToString i = (if i < 0 then CHR ''-'' # digitsOf (nat (- i)) else digitsOf (nat i))"

record ValidationResult =
  isValid :: bool
  errorMessage :: "string option"

definition useFormValidation :: "report_arg \<Rightarrow> 'img list \<Rightarrow> Config \<Rightarrow> ValidationResult" where
  "useFormValidation rep images config =
     (let valid = validateForm rep images config
      in \<lparr> isValid = valid,
           errorMessage =
             (if \<not> valid then
                (case rep of
                   RUndefined \<Rightarrow> Some ''Report data is not available.''
                 | RNull \<Rightarrow> Some ''Report data is not available.''
                 | RObject r \<Rightarrow>
                     if int (length images) < minImages config
                     then Some (''Please capture at least '' @ numberToString (minImages config)
                                @ '' photos to submit.'')
                     else Some ''Please fill all required fields to submit.'')
              else None) \<rparr>)"

section \<open>Decimal numerals\<close>

text \<open>
  The number that a decimal numeral denotes. These functions are not part of the code: they
  say which number the numeral in a message stands for. Only the canonical numeral of a
  number is read: digits without a leading zero, a minus sign only before a positive
  numeral, no exponent.
\<close>

definition digitValue :: "char \<Rightarrow> nat option" where
  "digitValue c = map_of (zip ''0123456789'' [0 ..< 10]) c"

fun valueOfDigits :: "nat \<Rightarrow> string \<Rightarrow> nat option" where
  "valueOfDigits acc [] = Some acc"
| "valueOfDigits acc (c # cs) =
     (case digitValue c of None \<Rightarrow> None | Some d \<Rightarrow> valueOfDigits (10 * acc + d) cs)"

definition readNatural :: "string \<Rightarrow> nat option" where
  "readNatural s =
     (if s = [] then None
      else if hd s = CHR ''0'' \<and> tl s \<noteq> [] then None
      else valueOfDigits 0 s)"

definition readNumber :: "string \<Rightarrow> int option" where
  "readNumber s =
     (case s of
        [] \<Rightarrow> None
      | c # cs \<Rightarrow>
          if c = CHR ''-''
          then (case readNatural cs of
                  None \<Rightarrow> None
                | Some n \<Rightarrow> if n = 0 then None else Some (- int n))
          else map_option int (readNatural s))"

section \<open>The hold scenario\<close>

definition holdConfig :: Config where
  "holdConfig =
     \<lparr> minImages = 2,
       baseFields = [''status''],
       conditionalFields = None,
       stringFields = Some [\<lparr> conditionField = ''status'', conditionValue = JString ''Hold'',
                              stringField = ''holdReason'', negateCondition = None \<rparr>],
       customValidation = None \<rparr>"

section \<open>ValidationConfigBuilder\<close>

text \<open>
  The builder keeps one configuration object in its private field \<^verbatim>\<open>config\<close>, updates it
  in place and hands it out in \<^verbatim>\<open>build\<close>. Objects are therefore kept in a store and named
  by their addresses: configuration objects, and the two kinds of rule arrays that
  \<^verbatim>\<open>push\<close> extends in place. Addresses from \<open>fresh\<close> on are not allocated.
\<close>

record store =
  configs :: "addr \<Rightarrow> ConfigObject"
  conditionalArrays :: "addr \<Rightarrow> ConditionalFieldConfig list"
  stringArrays :: "addr \<Rightarrow> StringFieldConfig list"
  fresh :: addr

record ValidationConfigBuilder =
  config :: addr

text \<open>What \<^verbatim>\<open>validateForm\<close> reads when it is passed the configuration object at an address.\<close>

definition readConfig :: "store \<Rightarrow> addr \<Rightarrow> Config" where
  "readConfig s c =
     \<lparr> minImages = minImages (configs s c),
       baseFields = baseFields (configs s c),
       conditionalFields = map_option (conditionalArrays s) (conditionalFields (configs s c)),
       stringFields = map_option (stringArrays s) (stringFields (configs s c)),
       customValidation = customValidation (configs s c) \<rparr>"

text \<open>
  \<^verbatim>\<open>
  constructor(minImages, baseFields) {
    this.config = { minImages, baseFields, conditionalFields: [], stringFields: [],
                    customValidation: undefined };
  }
  \<close>
\<close>

definition newBuilder :: "int \<Rightarrow> string list \<Rightarrow> store \<Rightarrow> ValidationConfigBuilder \<times> store" where
  "newBuilder minImgs baseFlds s =
     (let ca = fresh s; sa = fresh s + 1; c = fresh s + 2
      in (\<lparr> config = c \<rparr>,
          s\<lparr> configs := (configs s)(c :=
                 \<lparr> minImages = minImgs, baseFields = baseFlds,
                   conditionalFields = Some ca, stringFields = Some sa,
                   customValidation = None \<rparr>),
             conditionalArrays := (conditionalArrays s)(ca := []),
             stringArrays := (stringArrays s)(sa := []),
             fresh := fresh s + 3 \<rparr>))"

text \<open>
  \<^verbatim>\<open>if (!this.config.conditionalFields) { this.config.conditionalFields = []; }\<close>
  The result is the address of the array that the following \<^verbatim>\<open>push\<close> extends.
\<close>

definition ensureConditionalFields :: "ValidationConfigBuilder \<Rightarrow> store \<Rightarrow> addr \<times> store" where
  "ensureConditionalFields b s =
     (case conditionalFields (configs s (config b)) of
        Some a \<Rightarrow> (a, s)
      | None \<Rightarrow>
          (fresh s,
           s\<lparr> configs := (configs s)(config b :=
                  (configs s (config b))\<lparr> conditionalFields := Some (fresh s) \<rparr>),
              conditionalArrays := (conditionalArrays s)(fresh s := []),
              fresh := fresh s + 1 \<rparr>))"

text \<open>
  \<^verbatim>\<open>addConditionalFields(conditionField, conditionValue, requiredFields)\<close>; it returns
  \<^verbatim>\<open>this\<close>, so only the new store is the result.
\<close>

definition addConditionalFields ::
  "ValidationConfigBuilder \<Rightarrow> string \<Rightarrow> jsval \<Rightarrow> string list \<Rightarrow> store \<Rightarrow> store" where
  "addConditionalFields b condField condValue reqFields s =
     (case ensureConditionalFields b s of
        (a, s1) \<Rightarrow>
          s1\<lparr> conditionalArrays := (conditionalArrays s1)(a :=
                 conditionalArrays s1 a @
                 [\<lparr> conditionField = condField, conditionValue = condValue,
                    requiredFields = reqFields \<rparr>]) \<rparr>)"

definition ensureStringFields :: "ValidationConfigBuilder \<Rightarrow> store \<Rightarrow> addr \<times> store" where
  "ensureStringFields b s =
     (case stringFields (configs s (config b)) of
        Some a \<Rightarrow> (a, s)
      | None \<Rightarrow>
          (fresh s,
           s\<lparr> configs := (configs s)(config b :=
                  (configs s (config b))\<lparr> stringFields := Some (fresh s) \<rparr>),
              stringArrays := (stringArrays s)(fresh s := []),
              fresh := fresh s + 1 \<rparr>))"

text \<open>
  \<^verbatim>\<open>addStringField(conditionField, conditionValue, stringField, negateCondition = false)\<close>:
  the flag is always stored, \<open>False\<close> when the caller leaves it out.
\<close>

definition addStringField ::
  "ValidationConfigBuilder \<Rightarrow> string \<Rightarrow> jsval \<Rightarrow> string \<Rightarrow> bool \<Rightarrow> store \<Rightarrow> store" where
  "addStringField b condField condValue strField negate s =
     (case ensureStringFields b s of
        (a, s1) \<Rightarrow>
          s1\<lparr> stringArrays := (stringArrays s1)(a :=
                 stringArrays s1 a @
                 [\<lparr> conditionField = condField, conditionValue = condValue,
                    stringField = strField, negateCondition = Some negate \<rparr>]) \<rparr>)"

text \<open>\<^verbatim>\<open>addCustomValidation(validationFn) { this.config.customValidation = validationFn; }\<close>\<close>

definition addCustomValidation ::
  "ValidationConfigBuilder \<Rightarrow> (report \<Rightarrow> bool) \<Rightarrow> store \<Rightarrow> store" where
  "addCustomValidation b validationFn s =
     s\<lparr> configs := (configs s)(config b :=
            (configs s (config b))\<lparr> customValidation := Some validationFn \<rparr>) \<rparr>"

text \<open>\<^verbatim>\<open>build() { return this.config; }\<close>\<close>

definition build :: "ValidationConfigBuilder \<Rightarrow> addr" where
  "build b = config b"

text \<open>A store in which nothing is allocated yet, a builder made in it, and a predicate.\<close>

definition emptyStore :: store where
  "emptyStore =
     \<lparr> configs = (\<lambda>a. \<lparr> minImages = 0, baseFields = [], conditionalFields = None,
                          stringFields = None, customValidation = None \<rparr>),
       conditionalArrays = (\<lambda>a. []),
       stringArrays = (\<lambda>a. []),
       fresh = 0 \<rparr>"

definition plainBuilder :: ValidationConfigBuilder where
  "plainBuilder = fst (newBuilder 0 [] emptyStore)"

definition plainStore :: store where
  "plainStore = snd (newBuilder 0 [] emptyStore)"

definition rejectAll :: "report \<Rightarrow> bool" where
  "rejectAll r = False"

definition acceptAll :: "report \<Rightarrow> bool" where
  "acceptAll r = True"

section \<open>Example configurations\<close>

text \<open>A rule with the negate flag: \<open>remarks\<close> is required unless \<open>status\<close> is \<open>Clear\<close>.\<close>

definition negateConfig :: Config where
  "negateConfig =
     \<lparr> minImages = 0,
       baseFields = [],
       conditionalFields = Some [],
       stringFields = Some [\<lparr> conditionField = ''status'', conditionValue = JString ''Clear'',
                              stringField = ''remarks'', negateCondition = Some True \<rparr>],
       customValidation = None \<rparr>"

text \<open>Two conditional rules on different condition fields.\<close>

definition twoRulesConfig :: Config where
  "twoRulesConfig =
     \<lparr> minImages = 0,
       baseFields = [],
       conditionalFields =
         Some [\<lparr> conditionField = ''met'', conditionValue = JString ''Yes'',
                  requiredFields = [''name''] \<rparr>,
               \<lparr> conditionField = ''locked'', conditionValue = JBoolean True,
                  requiredFields = [''reason''] \<rparr>],
       stringFields = Some [],
       customValidation = None \<rparr>"

text \<open>
  The same two rules, the second one requiring a field named \<open>constructor\<close>, and a
  configuration with the base field \<open>toString\<close>.
\<close>

definition constructorRuleConfig :: Config where
  "constructorRuleConfig =
     \<lparr> minImages = 0,
       baseFields = [],
       conditionalFields =
         Some [\<lparr> conditionField = ''met'', conditionValue = JString ''Yes'',
                  requiredFields = [''name''] \<rparr>,
               \<lparr> conditionField = ''locked'', conditionValue = JBoolean True,
                  requiredFields = [''constructor''] \<rparr>],
       stringFields = Some [],
       customValidation = None \<rparr>"

definition toStringConfig :: Config where
  "toStringConfig =
     \<lparr> minImages = 0,
       baseFields = [''toString''],
       conditionalFields = Some [],
       stringFields = Some [],
       customValidation = None \<rparr>"

text \<open>A configuration that asks for 120 images.\<close>

definition photoConfig :: Config where
  "photoConfig =
     \<lparr> minImages = 120,
       baseFields = [''status''],
       conditionalFields = Some [],
       stringFields = Some [],
       customValidation = None \<rparr>"

text \<open>Numeric and boolean fields that are required.\<close>

definition countConfig :: Config where
  "countConfig =
     \<lparr> minImages = 1,
       baseFields = [''floors'', ''occupied''],
       conditionalFields =
         Some [\<lparr> conditionField = ''occupied'', conditionValue = JBoolean False,
                  requiredFields = [''tenants''] \<rparr>],
       stringFields = Some [],
       customValidation = Some acceptAll \<rparr>"

section \<open>The evaluator as a conjunction of checks\<close>

lemma checkFields_iff:
  "checkFields r fs =
     (\<forall>f \<in> set fs. getProp r f \<noteq> JNull \<and> getProp r f \<noteq> JUndefined \<and> getProp r f \<noteq> JString [])"
  by (auto simp: checkFields_def list_all_iff strictEquals_def Let_def)

lemma conditionalFieldsLoop_iff:
  "conditionalFieldsLoop r cs =
     (\<forall>c \<in> set cs. strictEquals (getProp r (conditionField c)) (conditionValue c)
                     \<longrightarrow> checkFields r (requiredFields c))"
  by (induction cs) auto

lemma stringFieldsLoop_iff:
  "stringFieldsLoop r ss =
     (\<forall>sc \<in> set ss. conditionMet r sc \<longrightarrow> checkStringField r (stringField sc))"
  by (induction ss) auto

lemma checkStringField_iff:
  "checkStringField r f = (\<exists>s. getProp r f = JString s \<and> trim s \<noteq> [])"
  by (cases "getProp r f") (simp_all add: checkStringField_def)

lemma getProp_missing:
  "(r f = None \<and> objectPrototype f = None) \<or> r f = Some JUndefined \<or> r f = Some JNull
     \<or> r f = Some (JString [])
   \<Longrightarrow> getProp r f = JNull \<or> getProp r f = JUndefined \<or> getProp r f = JString []"
  by (auto simp: getProp_def)

lemma validateForm_RObject_iff:
  "validateForm (RObject r) images cfg =
     (\<not> int (length images) < minImages cfg
      \<and> checkFields r (baseFields cfg)
      \<and> (\<forall>cs. conditionalFields cfg = Some cs \<longrightarrow> conditionalFieldsLoop r cs)
      \<and> (\<forall>ss. stringFields cfg = Some ss \<longrightarrow> stringFieldsLoop r ss)
      \<and> (\<forall>p. customValidation cfg = Some p \<longrightarrow> p r))"
  by (auto split: option.splits)

section \<open>The printed numeral reads back as the number\<close>

lemma upt_10: "[0 ..< 10] = [0, 1, 2, 3, 4, 5, 6, 7, 8, 9::nat]"
  by (simp add: upt_rec)

lemma digits_table:
  "\<forall>d \<in> set [0 ..< 10].
     digitValue (''0123456789'' ! d) = Some d
     \<and> ''0123456789'' ! d \<noteq> CHR ''-''
     \<and> (''0123456789'' ! d = CHR ''0'' \<longrightarrow> d = 0)"
  unfolding upt_10 by (simp add: digitValue_def upt_10)

lemma digitValue_digit:
  assumes "d < 10"
  shows "digitValue (''0123456789'' ! d) = Some d"
  using assms digits_table by simp

lemma digit_not_minus:
  assumes "d < 10"
  shows "''0123456789'' ! d \<noteq> CHR ''-''"
  using assms digits_table by simp

lemma digit_zero:
  assumes "d < 10" and "''0123456789'' ! d = CHR ''0''"
  shows "d = 0"
  using assms digits_table by simp

lemma valueOfDigits_append:
  "valueOfDigits acc (xs @ ys) =
     (case valueOfDigits acc xs of None \<Rightarrow> None | Some a \<Rightarrow> valueOfDigits a ys)"
  by (induction xs arbitrary: acc) (auto split: option.splits)

lemma valueOfDigits_digitsOf: "valueOfDigits 0 (digitsOf n) = Some n"
proof (induction n rule: digitsOf.induct)
  case (1 n)
  show ?case
  proof (cases "n < 10")
    case True
    then show ?thesis
      by (simp add: digitsOf.simps [of n] digitValue_digit)
  next
    case False
    have "n mod 10 < 10" by simp
    then have "digitValue (''0123456789'' ! (n mod 10)) = Some (n mod 10)"
      by (rule digitValue_digit)
    with False "1.IH" show ?thesis
      by (simp add: digitsOf.simps [of n] valueOfDigits_append)
  qed
qed

lemma digitsOf_not_Nil: "digitsOf n \<noteq> []"
  by (subst digitsOf.simps) simp

lemma hd_digitsOf: "\<exists>d<10. hd (digitsOf n) = ''0123456789'' ! d \<and> (d = 0 \<longrightarrow> n = 0)"
proof (induction n rule: digitsOf.induct)
  case (1 n)
  show ?case
  proof (cases "n < 10")
    case True
    then show ?thesis
      by (subst digitsOf.simps) auto
  next
    case False
    with "1.IH" obtain d where d: "d < 10" "hd (digitsOf (n div 10)) = ''0123456789'' ! d"
      "d = 0 \<longrightarrow> n div 10 = 0"
      by blast
    from False have "n div 10 \<noteq> 0" by simp
    with d(3) have "d \<noteq> 0" by blast
    moreover have "hd (digitsOf n) = hd (digitsOf (n div 10))"
      using False by (subst digitsOf.simps) (simp add: digitsOf_not_Nil)
    ultimately show ?thesis
      using d(1,2) by auto
  qed
qed

lemma digitsOf_0: "digitsOf 0 = ''0''"
  by (simp add: digitsOf.simps)

lemma readNatural_digitsOf: "readNatural (digitsOf n) = Some n"
proof -
  obtain d where d: "d < 10" "hd (digitsOf n) = ''0123456789'' ! d" "d = 0 \<longrightarrow> n = 0"
    using hd_digitsOf by blast
  have "tl (digitsOf n) = []" if "hd (digitsOf n) = CHR ''0''"
  proof -
    from that d(1,2) have "d = 0" by (simp add: digit_zero)
    with d(3) show ?thesis by (simp add: digitsOf_0)
  qed
  then show ?thesis
    by (auto simp: readNatural_def digitsOf_not_Nil valueOfDigits_digitsOf)
qed

lemma readNumber_numberToString: "readNumber (numberToString i) = Some i"
proof (cases "i < 0")
  case True
  then show ?thesis
    by (simp add: readNumber_def numberToString_def readNatural_digitsOf)
next
  case False
  obtain c cs where cs: "digitsOf (nat i) = c # cs"
    using digitsOf_not_Nil [of "nat i"] by (cases "digitsOf (nat i)") auto
  obtain d where d: "d < 10" "hd (digitsOf (nat i)) = ''0123456789'' ! d"
    using hd_digitsOf by blast
  then have "c \<noteq> CHR ''-''"
    using cs digit_not_minus [of d] by simp
  then have "readNumber (c # cs) = map_option int (readNatural (c # cs))"
    by (simp add: readNumber_def)
  also have "\<dots> = map_option int (readNatural (digitsOf (nat i)))"
    by (simp only: cs)
  also have "\<dots> = Some i"
    using False by (simp add: readNatural_digitsOf)
  finally show ?thesis
    using False by (simp add: numberToString_def cs)
qed

section \<open>Properties of the evaluator and the hook\<close>

text \<open>
  C1. With \<open>minImages = 2\<close>, base field \<open>status\<close> and the string rule
  "\<open>holdReason\<close> when \<open>status\<close> is \<open>Hold\<close>": a record on hold with a blank reason and two
  images is invalid; with the reason \<open>pending docs\<close> it is valid; a \<open>Clear\<close> record with one
  image is invalid and the message asks for at least 2 photos.
\<close>

theorem hold_scenario:
  "validateForm (RObject [''status'' \<mapsto> JString ''Hold'', ''holdReason'' \<mapsto> JString ''  ''])
      [i1, i2] holdConfig = False
   \<and> validateForm (RObject [''status'' \<mapsto> JString ''Hold'', ''holdReason'' \<mapsto> JString ''pending docs''])
      [i1, i2] holdConfig = True
   \<and> validateForm (RObject [''status'' \<mapsto> JString ''Clear'']) [i1] holdConfig = False
   \<and> errorMessage (useFormValidation (RObject [''status'' \<mapsto> JString ''Clear'']) [i1] holdConfig)
       = Some ''Please capture at least 2 photos to submit.''"
  by (simp add: holdConfig_def useFormValidation_def checkFields_def checkStringField_def
      conditionMet_def getProp_def objectPrototype_def strictEquals_def trim_def isWhiteSpace_def
      numberToString_def digitsOf.simps)

text \<open>
  C2. For every image array and every configuration, an absent report (\<open>null\<close> or
  \<open>undefined\<close>) is invalid and the message is \<open>Report data is not available.\<close>
\<close>

theorem absent_report:
  "validateForm RUndefined images cfg = False
   \<and> validateForm RNull images cfg = False
   \<and> errorMessage (useFormValidation RUndefined images cfg) = Some ''Report data is not available.''
   \<and> errorMessage (useFormValidation RNull images cfg) = Some ''Report data is not available.''"
  by (simp add: useFormValidation_def)

text \<open>
  C3. When the image array is shorter than \<open>minImages\<close>, a safe integer, the evaluation
  is false whatever the report argument is, and for every record, whatever its content, the
  message is \<open>Please capture at least N photos to submit.\<close> where \<open>N\<close> is the numeral
  that the code prints for \<open>minImages\<close>, and that numeral denotes \<open>minImages\<close>.
\<close>

theorem below_minimum_images:
  assumes "int (length images) < minImages cfg"
    and "isSafeInteger (minImages cfg)"
  shows "validateForm rep images cfg = False
         \<and> errorMessage (useFormValidation (RObject r) images cfg)
            = Some (''Please capture at least '' @ numberToString (minImages cfg)
                    @ '' photos to submit.'')
         \<and> readNumber (numberToString (minImages cfg)) = Some (minImages cfg)"
proof -
  have "validateForm rep images cfg = False"
    using assms(1) by (cases rep) simp_all
  moreover have "validateForm (RObject r) images cfg = False"
    using assms(1) by simp
  ultimately show ?thesis
    using assms(1) by (simp add: useFormValidation_def readNumber_numberToString)
qed

theorem below_minimum_images_witness:
  "int (length [''front'', ''gate'', ''door'']) < minImages photoConfig
   \<and> isSafeInteger (minImages photoConfig)
   \<and> validateForm (RObject [''status'' \<mapsto> JString ''Clear''])
        [''front'', ''gate'', ''door''] photoConfig = False
   \<and> errorMessage (useFormValidation (RObject [''status'' \<mapsto> JString ''Clear''])
        [''front'', ''gate'', ''door''] photoConfig)
      = Some ''Please capture at least 120 photos to submit.''
   \<and> readNumber ''120'' = Some 120
   \<and> errorMessage (useFormValidation
        (RObject [''status'' \<mapsto> JString ''Hold'', ''holdReason'' \<mapsto> JString ''pending docs''])
        [''front''] holdConfig)
      = Some ''Please capture at least 2 photos to submit.''
   \<and> readNumber ''2'' = Some 2"
proof -
  have few: "int (length [''front'', ''gate'', ''door'']) < minImages photoConfig"
    and safe: "isSafeInteger (minImages photoConfig)"
    by (simp_all add: photoConfig_def isSafeInteger_def)
  have few': "int (length [''front'']) < minImages holdConfig"
    and safe': "isSafeInteger (minImages holdConfig)"
    by (simp_all add: holdConfig_def isSafeInteger_def)
  have m: "minImages photoConfig = 120" and m': "minImages holdConfig = 2"
    by (simp_all add: photoConfig_def holdConfig_def)
  have n: "numberToString 120 = ''120''" and n': "numberToString 2 = ''2''"
    by (simp_all add: numberToString_def digitsOf.simps)
  show ?thesis
    using few safe
      below_minimum_images [OF few safe, of "RObject [''status'' \<mapsto> JString ''Clear'']"
        "[''status'' \<mapsto> JString ''Clear'']"]
      below_minimum_images [OF few' safe', of "RObject Map.empty"
        "[''status'' \<mapsto> JString ''Hold'', ''holdReason'' \<mapsto> JString ''pending docs'']"]
    by (simp add: m m' n n')
qed

text \<open>
  A base field that is absent from the record does not always fail the evaluation: the empty
  record has no property \<open>toString\<close>, yet with \<open>toString\<close> as the only base field it is
  valid, because \<^verbatim>\<open>report[field]\<close> reads the function inherited from
  \<^verbatim>\<open>Object.prototype\<close>.
\<close>

theorem absent_base_field_counterexample:
  "''toString'' \<in> set (baseFields toStringConfig)
   \<and> (Map.empty :: report) ''toString'' = None
   \<and> validateForm (RObject Map.empty) ([]::nat list) toStringConfig = True"
  by (simp add: toStringConfig_def checkFields_def getProp_def objectPrototype_def
      strictEquals_def)

text \<open>
  C4, as the code has it. For a record that is present: if a field listed in \<open>baseFields\<close>
  is bound to \<open>undefined\<close>, \<open>null\<close> or the empty string, or is absent from the record and
  is not one of the names inherited from \<^verbatim>\<open>Object.prototype\<close>, the evaluation is false.
\<close>

theorem missing_base_field:
  assumes "f \<in> set (baseFields cfg)"
    and "(r f = None \<and> objectPrototype f = None) \<or> r f = Some JUndefined \<or> r f = Some JNull
         \<or> r f = Some (JString [])"
  shows "validateForm (RObject r) images cfg = False"
proof -
  from assms(2) have "getProp r f = JNull \<or> getProp r f = JUndefined \<or> getProp r f = JString []"
    by (rule getProp_missing)
  with assms(1) have "\<not> checkFields r (baseFields cfg)"
    unfolding checkFields_iff by blast
  then show ?thesis by simp
qed

theorem missing_base_field_witness:
  "''status'' \<in> set (baseFields holdConfig)
   \<and> objectPrototype ''status'' = None
   \<and> validateForm (RObject [''holdReason'' \<mapsto> JString ''pending docs'']) [1::nat, 2] holdConfig = False
   \<and> validateForm (RObject [''status'' \<mapsto> JUndefined]) [1::nat, 2] holdConfig = False
   \<and> validateForm (RObject [''status'' \<mapsto> JNull]) [1::nat, 2] holdConfig = False
   \<and> validateForm (RObject [''status'' \<mapsto> JString []]) [1::nat, 2] holdConfig = False"
proof -
  have base: "''status'' \<in> set (baseFields holdConfig)"
    by (simp add: holdConfig_def)
  have own: "objectPrototype ''status'' = None"
    by (simp add: objectPrototype_def)
  have absent: "([''holdReason'' \<mapsto> JString ''pending docs''] ''status'' = None
                 \<and> objectPrototype ''status'' = None)
      \<or> [''holdReason'' \<mapsto> JString ''pending docs''] ''status'' = Some JUndefined
      \<or> [''holdReason'' \<mapsto> JString ''pending docs''] ''status'' = Some JNull
      \<or> [''holdReason'' \<mapsto> JString ''pending docs''] ''status'' = Some (JString [])"
    using own by simp
  have undef: "([''status'' \<mapsto> JUndefined] ''status'' = None \<and> objectPrototype ''status'' = None)
      \<or> [''status'' \<mapsto> JUndefined] ''status'' = Some JUndefined
      \<or> [''status'' \<mapsto> JUndefined] ''status'' = Some JNull
      \<or> [''status'' \<mapsto> JUndefined] ''status'' = Some (JString [])"
    by simp
  have null: "([''status'' \<mapsto> JNull] ''status'' = None \<and> objectPrototype ''status'' = None)
      \<or> [''status'' \<mapsto> JNull] ''status'' = Some JUndefined
      \<or> [''status'' \<mapsto> JNull] ''status'' = Some JNull
      \<or> [''status'' \<mapsto> JNull] ''status'' = Some (JString [])"
    by simp
  have blank: "([''status'' \<mapsto> JString []] ''status'' = None \<and> objectPrototype ''status'' = None)
      \<or> [''status'' \<mapsto> JString []] ''status'' = Some JUndefined
      \<or> [''status'' \<mapsto> JString []] ''status'' = Some JNull
      \<or> [''status'' \<mapsto> JString []] ''status'' = Some (JString [])"
    by simp
  show ?thesis
    using base own
      missing_base_field [of "''status''" holdConfig
        "[''holdReason'' \<mapsto> JString ''pending docs'']" "[1::nat, 2]", OF base absent]
      missing_base_field [of "''status''" holdConfig
        "[''status'' \<mapsto> JUndefined]" "[1::nat, 2]", OF base undef]
      missing_base_field [of "''status''" holdConfig
        "[''status'' \<mapsto> JNull]" "[1::nat, 2]", OF base null]
      missing_base_field [of "''status''" holdConfig
        "[''status'' \<mapsto> JString []]" "[1::nat, 2]", OF base blank]
    by (intro conjI)
qed

text \<open>
  C5. A string rule in the configuration contributes exactly one requirement to the
  evaluation: when the rule is triggered, its target field is a string that is not empty
  after trimming. With the negate flag set the trigger is
  \<^verbatim>\<open>record[conditionField] !== conditionValue\<close>, so the rule asks nothing when the two are
  strictly equal; without the flag the trigger is strict equality. Dropping the rule from the
  configuration and adding that requirement gives the same result.
\<close>

theorem string_rule_negate:
  assumes "stringFields cfg = Some (pre @ rule # post)"
  shows "validateForm (RObject r) images cfg =
           (validateForm (RObject r) images (cfg\<lparr> stringFields := Some (pre @ post) \<rparr>)
            \<and> ((if negateCondition rule = Some True
                 then \<not> strictEquals (getProp r (conditionField rule)) (conditionValue rule)
                 else strictEquals (getProp r (conditionField rule)) (conditionValue rule))
                \<longrightarrow> (\<exists>s. getProp r (stringField rule) = JString s \<and> trim s \<noteq> [])))"
proof -
  have "stringFieldsLoop r (pre @ rule # post) =
          (stringFieldsLoop r (pre @ post)
           \<and> (conditionMet r rule \<longrightarrow> checkStringField r (stringField rule)))"
    unfolding stringFieldsLoop_iff by auto
  then show ?thesis
    using assms unfolding validateForm_RObject_iff
    by (auto simp: conditionMet_def checkStringField_iff)
qed

theorem string_rule_negate_witness:
  "stringFields negateConfig
     = Some ([] @ \<lparr> conditionField = ''status'', conditionValue = JString ''Clear'',
                     stringField = ''remarks'', negateCondition = Some True \<rparr> # [])
   \<and> validateForm (RObject [''status'' \<mapsto> JString ''Hold'']) ([]::nat list) negateConfig = False
   \<and> validateForm (RObject [''status'' \<mapsto> JString ''Hold'', ''remarks'' \<mapsto> JString ''gate shut''])
        ([]::nat list) negateConfig = True
   \<and> validateForm (RObject [''status'' \<mapsto> JString ''Clear'']) ([]::nat list) negateConfig = True"
  using string_rule_negate [of negateConfig "[]"
      "\<lparr> conditionField = ''status'', conditionValue = JString ''Clear'',
         stringField = ''remarks'', negateCondition = Some True \<rparr>" "[]"
      "[''status'' \<mapsto> JString ''Hold'']" "[]::nat list"]
    string_rule_negate [of negateConfig "[]"
      "\<lparr> conditionField = ''status'', conditionValue = JString ''Clear'',
         stringField = ''remarks'', negateCondition = Some True \<rparr>" "[]"
      "[''status'' \<mapsto> JString ''Hold'', ''remarks'' \<mapsto> JString ''gate shut'']" "[]::nat list"]
    string_rule_negate [of negateConfig "[]"
      "\<lparr> conditionField = ''status'', conditionValue = JString ''Clear'',
         stringField = ''remarks'', negateCondition = Some True \<rparr>" "[]"
      "[''status'' \<mapsto> JString ''Clear'']" "[]::nat list"]
  by (simp add: negateConfig_def checkFields_def getProp_def objectPrototype_def strictEquals_def trim_def
      isWhiteSpace_def)

text \<open>
  A required field that the record leaves out does not always fail the evaluation: the record
  below triggers both rules of \<open>constructorRuleConfig\<close> and has the field of the first; it
  has no property \<open>constructor\<close>, the field of the second, and is valid, because
  \<^verbatim>\<open>report[field]\<close> reads the function inherited from \<^verbatim>\<open>Object.prototype\<close>.
\<close>

theorem absent_required_field_counterexample:
  "strictEquals
     (getProp [''met'' \<mapsto> JString ''Yes'', ''name'' \<mapsto> JString ''Asha'', ''locked'' \<mapsto> JBoolean True]
        ''met'') (JString ''Yes'')
   \<and> strictEquals
     (getProp [''met'' \<mapsto> JString ''Yes'', ''name'' \<mapsto> JString ''Asha'', ''locked'' \<mapsto> JBoolean True]
        ''locked'') (JBoolean True)
   \<and> checkFields [''met'' \<mapsto> JString ''Yes'', ''name'' \<mapsto> JString ''Asha'', ''locked'' \<mapsto> JBoolean True]
        [''name'']
   \<and> [''met'' \<mapsto> JString ''Yes'', ''name'' \<mapsto> JString ''Asha'', ''locked'' \<mapsto> JBoolean True]
        ''constructor'' = None
   \<and> validateForm
        (RObject [''met'' \<mapsto> JString ''Yes'', ''name'' \<mapsto> JString ''Asha'', ''locked'' \<mapsto> JBoolean True])
        ([]::nat list) constructorRuleConfig = True"
  by (simp add: constructorRuleConfig_def checkFields_def getProp_def objectPrototype_def
      strictEquals_def)

text \<open>
  C6, as the code has it. Conditional rules are independent and combine by conjunction: when
  a record triggers two rules on different condition fields, has every required field of the
  first, and a required field of the second is missing (bound to \<open>undefined\<close>, \<open>null\<close> or the
  empty string, or absent from the record under a name that is not inherited from
  \<^verbatim>\<open>Object.prototype\<close>), the evaluation is false; in general the result is the result
  without conditional rules, conjoined with the requirement of every triggered rule.
\<close>

theorem conditional_rules_independent:
  assumes "conditionalFields cfg = Some cs"
    and "c1 \<in> set cs" and "c2 \<in> set cs"
    and "conditionField c1 \<noteq> conditionField c2"
    and "strictEquals (getProp r (conditionField c1)) (conditionValue c1)"
    and "strictEquals (getProp r (conditionField c2)) (conditionValue c2)"
    and "checkFields r (requiredFields c1)"
    and "f \<in> set (requiredFields c2)"
    and "(r f = None \<and> objectPrototype f = None) \<or> r f = Some JUndefined \<or> r f = Some JNull
         \<or> r f = Some (JString [])"
  shows "validateForm (RObject r) images cfg = False
         \<and> validateForm (RObject r) images cfg =
             (validateForm (RObject r) images (cfg\<lparr> conditionalFields := None \<rparr>)
              \<and> (\<forall>c \<in> set cs. strictEquals (getProp r (conditionField c)) (conditionValue c)
                               \<longrightarrow> checkFields r (requiredFields c)))"
proof -
  have "getProp r f = JNull \<or> getProp r f = JUndefined \<or> getProp r f = JString []"
    using assms(9) by (rule getProp_missing)
  with assms(8) have "\<not> checkFields r (requiredFields c2)"
    unfolding checkFields_iff by blast
  with assms(3,6) have "\<not> conditionalFieldsLoop r cs"
    unfolding conditionalFieldsLoop_iff by blast
  with assms(1) have "validateForm (RObject r) images cfg = False"
    by simp
  moreover have "validateForm (RObject r) images cfg =
      (validateForm (RObject r) images (cfg\<lparr> conditionalFields := None \<rparr>)
       \<and> conditionalFieldsLoop r cs)"
    using assms(1) unfolding validateForm_RObject_iff by auto
  ultimately show ?thesis
    unfolding conditionalFieldsLoop_iff by blast
qed

theorem conditional_rules_independent_witness:
  "validateForm
     (RObject [''met'' \<mapsto> JString ''Yes'', ''name'' \<mapsto> JString ''Asha'', ''locked'' \<mapsto> JBoolean True])
     ([]::nat list) twoRulesConfig = False
   \<and> validateForm
     (RObject [''met'' \<mapsto> JString ''Yes'', ''name'' \<mapsto> JString ''Asha'', ''locked'' \<mapsto> JBoolean True,
               ''reason'' \<mapsto> JString ''gate shut''])
     ([]::nat list) twoRulesConfig = True"
proof -
  let ?r = "[''met'' \<mapsto> JString ''Yes'', ''name'' \<mapsto> JString ''Asha'', ''locked'' \<mapsto> JBoolean True]"
  let ?c1 = "\<lparr> conditionField = ''met'', conditionValue = JString ''Yes'',
               requiredFields = [''name''] \<rparr>"
  let ?c2 = "\<lparr> conditionField = ''locked'', conditionValue = JBoolean True,
               requiredFields = [''reason''] \<rparr>"
  have h1: "conditionalFields twoRulesConfig = Some [?c1, ?c2]"
    by (simp add: twoRulesConfig_def)
  have h2: "?c1 \<in> set [?c1, ?c2]" and h3: "?c2 \<in> set [?c1, ?c2]"
    by simp_all
  have h4: "conditionField ?c1 \<noteq> conditionField ?c2"
    by simp
  have h5: "strictEquals (getProp ?r (conditionField ?c1)) (conditionValue ?c1)"
    and h6: "strictEquals (getProp ?r (conditionField ?c2)) (conditionValue ?c2)"
    by (simp_all add: strictEquals_def getProp_def objectPrototype_def)
  have h7: "checkFields ?r (requiredFields ?c1)"
    by (simp add: checkFields_def strictEquals_def getProp_def objectPrototype_def)
  have h8: "''reason'' \<in> set (requiredFields ?c2)"
    by simp
  have h9: "(?r ''reason'' = None \<and> objectPrototype ''reason'' = None)
            \<or> ?r ''reason'' = Some JUndefined \<or> ?r ''reason'' = Some JNull
            \<or> ?r ''reason'' = Some (JString [])"
    by (simp add: objectPrototype_def)
  have "validateForm (RObject ?r) ([]::nat list) twoRulesConfig = False"
    using conditional_rules_independent [OF h1 h2 h3 h4 h5 h6 h7 h8 h9, of "[]::nat list"]
    by (rule conjunct1)
  then show ?thesis
    by (simp add: twoRulesConfig_def checkFields_def strictEquals_def getProp_def objectPrototype_def)
qed

section \<open>Properties of the builder\<close>

text \<open>
  The configuration returned by \<^verbatim>\<open>build\<close> is not a snapshot. A builder for
  \<open>minImages = 0\<close> and no base fields is built; the empty record is valid for the
  configuration it returns. After \<^verbatim>\<open>addCustomValidation\<close> on the same builder with a
  predicate that rejects every record, the empty record is invalid for the configuration that
  was returned before.
\<close>

theorem build_shares_builder_config_counterexample:
  "validateForm (RObject Map.empty) ([]::nat list)
     (readConfig plainStore (build plainBuilder)) = True
   \<and> validateForm (RObject Map.empty) ([]::nat list)
       (readConfig (addCustomValidation plainBuilder rejectAll plainStore) (build plainBuilder)) = False"
  by (simp add: plainStore_def plainBuilder_def newBuilder_def emptyStore_def readConfig_def
      addCustomValidation_def build_def rejectAll_def checkFields_def Let_def)

text \<open>
  C7, as the code has it. \<^verbatim>\<open>build\<close> returns the builder's own configuration object.
  Read through the address that \<^verbatim>\<open>build\<close> returned, the configuration after a later
  \<^verbatim>\<open>addCustomValidation\<close> has the new predicate, after a later
  \<^verbatim>\<open>addConditionalFields\<close> or \<^verbatim>\<open>addStringField\<close> it has the new rule appended to the
  corresponding array, and it is otherwise unchanged. The evaluator takes the configuration
  as a value and yields only a boolean: it changes nothing in the store.
\<close>

theorem build_returns_live_config:
  "build b = config b
   \<and> readConfig (addCustomValidation b g s) (build b)
      = (readConfig s (build b))\<lparr> customValidation := Some g \<rparr>
   \<and> readConfig (addConditionalFields b cf cv rf s) (build b)
      = (readConfig s (build b))
          \<lparr> conditionalFields :=
              Some ((case conditionalFields (readConfig s (build b)) of None \<Rightarrow> [] | Some cs \<Rightarrow> cs)
                    @ [\<lparr> conditionField = cf, conditionValue = cv, requiredFields = rf \<rparr>]) \<rparr>
   \<and> readConfig (addStringField b cf cv sf neg s) (build b)
      = (readConfig s (build b))
          \<lparr> stringFields :=
              Some ((case stringFields (readConfig s (build b)) of None \<Rightarrow> [] | Some ss \<Rightarrow> ss)
                    @ [\<lparr> conditionField = cf, conditionValue = cv, stringField = sf,
                          negateCondition = Some neg \<rparr>]) \<rparr>"
  by (simp add: readConfig_def addCustomValidation_def addConditionalFields_def addStringField_def
      ensureConditionalFields_def ensureStringFields_def build_def split: option.splits)

text \<open>
  C8. The custom predicate is a single slot: after \<^verbatim>\<open>addCustomValidation(f)\<close> and then
  \<^verbatim>\<open>addCustomValidation(g)\<close> the configuration's predicate is \<open>g\<close>, and the
  configuration is the one that \<^verbatim>\<open>addCustomValidation(g)\<close> alone produces.
\<close>

theorem addCustomValidation_overwrites:
  "customValidation (readConfig (addCustomValidation b g (addCustomValidation b f s)) (build b)) = Some g
   \<and> readConfig (addCustomValidation b g (addCustomValidation b f s)) (build b)
      = readConfig (addCustomValidation b g s) (build b)"
  by (simp add: readConfig_def addCustomValidation_def build_def)

section \<open>Dependence on the inputs\<close>

text \<open>
  C9. The evaluator and the hook are functions of the report argument, the number of images
  and the configuration: two image arrays of the same length, whatever they contain and
  whatever their element type, give the same result for the same report and configuration.
\<close>

theorem depends_on_image_count_only:
  assumes "length images1 = length images2"
  shows "validateForm rep images1 cfg = validateForm rep images2 cfg
         \<and> useFormValidation rep images1 cfg = useFormValidation rep images2 cfg"
proof -
  have "validateForm rep images1 cfg = validateForm rep images2 cfg"
    using assms by (cases rep) simp_all
  then show ?thesis
    using assms by (simp add: useFormValidation_def)
qed

theorem depends_on_image_count_only_witness:
  "length [''front'', ''gate''] = length [7::nat, 9]
   \<and> validateForm (RObject [''status'' \<mapsto> JString ''Clear'']) [''front'', ''gate''] holdConfig
      = validateForm (RObject [''status'' \<mapsto> JString ''Clear'']) [7::nat, 9] holdConfig
   \<and> validateForm (RObject [''status'' \<mapsto> JString ''Clear'']) [7::nat, 9] holdConfig = True"
proof -
  have len: "length [''front'', ''gate''] = length [7::nat, 9]"
    by simp
  show ?thesis
    using len depends_on_image_count_only [OF len, of "RObject [''status'' \<mapsto> JString ''Clear'']" holdConfig]
    by (simp add: holdConfig_def checkFields_def conditionMet_def getProp_def objectPrototype_def strictEquals_def)
qed

text \<open>
  C10. The number \<open>0\<close> and the boolean \<open>false\<close> count as present: when every base field and
  every required field of every triggered conditional rule is bound to \<open>0\<close> or \<open>false\<close>,
  and the image count, the string rules and the custom predicate pass, the evaluation is true.
\<close>

theorem zero_and_false_are_present:
  assumes "\<not> int (length images) < minImages cfg"
    and "\<forall>f \<in> set (baseFields cfg). r f = Some (JNumber 0) \<or> r f = Some (JBoolean False)"
    and "\<forall>cs. conditionalFields cfg = Some cs \<longrightarrow>
           (\<forall>c \<in> set cs. strictEquals (getProp r (conditionField c)) (conditionValue c) \<longrightarrow>
              (\<forall>f \<in> set (requiredFields c). r f = Some (JNumber 0) \<or> r f = Some (JBoolean False)))"
    and "\<forall>ss. stringFields cfg = Some ss \<longrightarrow> stringFieldsLoop r ss"
    and "\<forall>p. customValidation cfg = Some p \<longrightarrow> p r"
  shows "validateForm (RObject r) images cfg = True"
proof -
  have present: "checkFields r fs"
    if "\<forall>f \<in> set fs. r f = Some (JNumber 0) \<or> r f = Some (JBoolean False)" for fs
    using that unfolding checkFields_iff by (auto simp: getProp_def)
  have "checkFields r (baseFields cfg)"
    using assms(2) by (rule present)
  moreover have "conditionalFieldsLoop r cs" if "conditionalFields cfg = Some cs" for cs
    unfolding conditionalFieldsLoop_iff using assms(3) that present by blast
  ultimately show ?thesis
    using assms(1,4,5) unfolding validateForm_RObject_iff by blast
qed

theorem zero_and_false_are_present_witness:
  "validateForm
     (RObject [''floors'' \<mapsto> JNumber 0, ''occupied'' \<mapsto> JBoolean False, ''tenants'' \<mapsto> JNumber 0])
     [1::nat] countConfig = True"
proof -
  let ?r = "[''floors'' \<mapsto> JNumber 0, ''occupied'' \<mapsto> JBoolean False, ''tenants'' \<mapsto> JNumber 0]"
  have h1: "\<not> int (length [1::nat]) < minImages countConfig"
    by (simp add: countConfig_def)
  have h2: "\<forall>f \<in> set (baseFields countConfig). ?r f = Some (JNumber 0) \<or> ?r f = Some (JBoolean False)"
    by (simp add: countConfig_def)
  have h3: "\<forall>cs. conditionalFields countConfig = Some cs \<longrightarrow>
     (\<forall>c \<in> set cs. strictEquals (getProp ?r (conditionField c)) (conditionValue c) \<longrightarrow>
        (\<forall>f \<in> set (requiredFields c). ?r f = Some (JNumber 0) \<or> ?r f = Some (JBoolean False)))"
    by (simp add: countConfig_def)
  have h4: "\<forall>ss. stringFields countConfig = Some ss \<longrightarrow> stringFieldsLoop ?r ss"
    by (simp add: countConfig_def)
  have h5: "\<forall>p. customValidation countConfig = Some p \<longrightarrow> p ?r"
    by (simp add: countConfig_def acceptAll_def)
  show ?thesis
    using zero_and_false_are_present [OF h1 h2 h3 h4 h5] .
qed

end
